theory Spec2Isabelle
  imports Complex_Main
begin

section \<open>Bounding boxes of SVG shapes (cairosvg/bounding\_box.py)\<close>

text \<open>
  The module computes bounding boxes as tuples \<open>(minx, miny, width, height)\<close> of Python
  floats. A finite float is the real number it stands for; the special values \<open>inf\<close>,
  \<open>-inf\<close> and \<open>nan\<close> are kept, since the empty box is \<open>(inf, inf, 0, 0)\<close> and the
  box algebra tests \<open>isinf\<close>. The additions and subtractions of the box algebra round
  as binary64 does. The arc solver is modelled on the reals.
\<close>

subsection \<open>Python values\<close>

datatype error = ZeroDivisionError | ValueError | TypeError | IndexError

datatype pyfloat = Fin real | PInf | MInf | NaN

text \<open>A coordinate handed to the box algebra is a number or, in the horizontal and
  vertical path commands, the string cut out of the path data.\<close>

datatype pyval = Num pyfloat | Str string

fun isinf :: "pyfloat \<Rightarrow> bool" where
  "isinf PInf = True"
| "isinf MInf = True"
| "isinf _ = False"

text \<open>The result of an addition is the exact sum rounded to the nearest binary64 number,
  ties to the even mantissa: 53 bits of precision, exponents from \<open>-1022\<close> (below it
  the spacing stays \<open>2 ^ -1074\<close>) to \<open>1023\<close>, and infinity from \<open>2 ^ 1024\<close> on.\<close>

definition round_half_even :: "real \<Rightarrow> int" where
  "round_half_even q =
     (let f = \<lfloor>q\<rfloor>; d = q - of_int f
      in if d < 1 / 2 then f else if 1 / 2 < d then f + 1
         else if even f then f else f + 1)"

definition round64 :: "real \<Rightarrow> pyfloat" where
  "round64 x =
     (if x = 0 then Fin 0
      else
        let e = max \<lfloor>log 2 \<bar>x\<bar>\<rfloor> (- 1022);
            ulp = 2 powi (e - 52);
            r = of_int (round_half_even (x / ulp)) * ulp
        in if 2 ^ 1024 \<le> r then PInf else if r \<le> - (2 ^ 1024) then MInf else Fin r)"

fun fadd :: "pyfloat \<Rightarrow> pyfloat \<Rightarrow> pyfloat" where
  "fadd (Fin a) (Fin b) = round64 (a + b)"
| "fadd NaN _ = NaN"
| "fadd _ NaN = NaN"
| "fadd PInf MInf = NaN"
| "fadd MInf PInf = NaN"
| "fadd PInf _ = PInf"
| "fadd _ PInf = PInf"
| "fadd MInf _ = MInf"
| "fadd _ MInf = MInf"

fun fneg :: "pyfloat \<Rightarrow> pyfloat" where
  "fneg (Fin a) = Fin (- a)"
| "fneg PInf = MInf"
| "fneg MInf = PInf"
| "fneg NaN = NaN"

definition fsub :: "pyfloat \<Rightarrow> pyfloat \<Rightarrow> pyfloat" where
  "fsub a b = fadd a (fneg b)"

text \<open>\<open>a < b\<close> on floats: false as soon as one side is \<open>nan\<close>.\<close>

fun flt :: "pyfloat \<Rightarrow> pyfloat \<Rightarrow> bool" where
  "flt (Fin a) (Fin b) = (a < b)"
| "flt NaN _ = False"
| "flt _ NaN = False"
| "flt MInf MInf = False"
| "flt MInf _ = True"
| "flt _ MInf = False"
| "flt PInf _ = False"
| "flt _ PInf = True"

text \<open>Python's \<open>min(first, *rest)\<close> and \<open>max(first, *rest)\<close>: the running result is
  replaced by a later item only when that item is strictly smaller (greater).\<close>

definition py_min :: "pyfloat \<Rightarrow> pyfloat list \<Rightarrow> pyfloat" where
  "py_min first rest = foldl (\<lambda>m v. if flt v m then v else m) first rest"

definition py_max :: "pyfloat \<Rightarrow> pyfloat list \<Rightarrow> pyfloat" where
  "py_max first rest = foldl (\<lambda>m v. if flt m v then v else m) first rest"

text \<open>Comparing a string coordinate with the float \<open>minx\<close> raises \<open>TypeError\<close>; the
  running minimum starts as a float and can only be replaced after a successful
  comparison, so one string among the coordinates is enough to raise.\<close>

fun as_floats :: "pyval list \<Rightarrow> error + pyfloat list" where
  "as_floats [] = Inr []"
| "as_floats (Str s # vs) = Inl TypeError"
| "as_floats (Num f # vs) =
     (case as_floats vs of Inl e \<Rightarrow> Inl e | Inr fs \<Rightarrow> Inr (f # fs))"

subsection \<open>Box algebra\<close>

type_synonym bbox = "pyfloat \<times> pyfloat \<times> pyfloat \<times> pyfloat"

definition EMPTY_BOUNDING_BOX :: bbox where
  "EMPTY_BOUNDING_BOX = (PInf, PInf, Fin 0, Fin 0)"

text \<open>\<open>extend_bounding_box\<close>: \<open>x_list, y_list = zip(*points)\<close> cannot be unpacked when
  \<open>points\<close> is empty (\<open>ValueError\<close>).\<close>

definition extend_bounding_box :: "bbox \<Rightarrow> (pyval \<times> pyval) list \<Rightarrow> error + bbox" where
  "extend_bounding_box bounding_box points =
     (case bounding_box of (minx, miny, width, height) \<Rightarrow>
        let maxx = (if isinf minx then MInf else fadd minx width);
            maxy = (if isinf miny then MInf else fadd miny height)
        in if points = [] then Inl ValueError
           else case as_floats (map fst points) of
                  Inl e \<Rightarrow> Inl e
                | Inr x_list \<Rightarrow>
                    (case as_floats (map snd points) of
                       Inl e \<Rightarrow> Inl e
                     | Inr y_list \<Rightarrow>
                         let minx' = py_min minx x_list; miny' = py_min miny y_list;
                             maxx' = py_max maxx x_list; maxy' = py_max maxy y_list
                         in Inr (minx', miny', fsub maxx' minx', fsub maxy' miny')))"

text \<open>\<open>is_valid_bounding_box\<close>: \<open>bounding_box and not isinf(bounding_box[0] +
  bounding_box[1])\<close>; \<open>None\<close> is falsy.\<close>

definition is_valid_bounding_box :: "bbox option \<Rightarrow> bool" where
  "is_valid_bounding_box bounding_box =
     (case bounding_box of
        None \<Rightarrow> False
      | Some (minx, miny, width, height) \<Rightarrow> \<not> isinf (fadd minx miny))"

text \<open>\<open>is_non_empty_bounding_box\<close>: valid and \<open>0 not in bounding_box[2:]\<close>.\<close>

definition is_non_empty_bounding_box :: "bbox option \<Rightarrow> bool" where
  "is_non_empty_bounding_box bounding_box =
     (is_valid_bounding_box bounding_box \<and>
      (case bounding_box of
         None \<Rightarrow> False
       | Some (minx, miny, width, height) \<Rightarrow> width \<noteq> Fin 0 \<and> height \<noteq> Fin 0))"


subsection \<open>Errors as values\<close>

definition and_then :: "error + 'a \<Rightarrow> ('a \<Rightarrow> error + 'b) \<Rightarrow> error + 'b" where
  "and_then m f = (case m of Inl e \<Rightarrow> Inl e | Inr v \<Rightarrow> f v)"

text \<open>Float division raises \<open>ZeroDivisionError\<close> on a zero divisor.\<close>

definition py_div :: "real \<Rightarrow> real \<Rightarrow> error + real" where
  "py_div a b = (if b = 0 then Inl ZeroDivisionError else Inr (a / b))"

text \<open>\<open>math.fmod\<close>: the remainder with the quotient truncated towards zero. Its only
  call has the divisor \<open>2 * pi\<close>.\<close>

definition fmod :: "real \<Rightarrow> real \<Rightarrow> real" where
  "fmod a b = a - b * real_of_int (if 0 \<le> a / b then \<lfloor>a / b\<rfloor> else \<lceil>a / b\<rceil>)"

subsection \<open>The elliptical arc\<close>

text \<open>\<open>angle(bx, by)\<close>; \<open>acos\<close> raises \<open>ValueError\<close> outside \<open>[-1, 1]\<close>.\<close>

definition angle :: "real \<Rightarrow> real \<Rightarrow> error + real" where
  "angle b_x b_y =
     and_then (py_div b_x (sqrt (b_x * b_x + b_y * b_y)))
       (\<lambda>c. if c < - 1 \<or> 1 < c then Inl ValueError
            else Inr (fmod (2 * pi + (if b_y > 0 then 1 else - 1) * arccos c) (2 * pi)))"

type_synonym rbox = "real \<times> real \<times> real \<times> real"

text \<open>Lines 249 to 272 of \<open>bounding_box_elliptical_arc\<close>: either one of the two early
  returns (\<open>Inl\<close>), or the radii and the centre in the rotated frame
  \<open>(rx, ry, cxprime, cyprime)\<close>.\<close>

definition arc_radii ::
  "real \<Rightarrow> real \<Rightarrow> real \<Rightarrow> real \<Rightarrow> real \<Rightarrow> bool \<Rightarrow> bool \<Rightarrow> real \<Rightarrow> real
     \<Rightarrow> error + (rbox + real \<times> real \<times> real \<times> real)" where
  "arc_radii x1 y1 rx0 ry0 phi large sweep x y =
     (let rx = \<bar>rx0\<bar>; ry = \<bar>ry0\<bar> in
      if rx = 0 \<or> ry = 0 then Inr (Inl (min x x1, min y y1, max x x1, max y y1))
      else
        let x1prime = cos phi * (x1 - x) / 2 + sin phi * (y1 - y) / 2;
            y1prime = - sin phi * (x1 - x) / 2 + cos phi * (y1 - y) / 2
        in and_then
             (py_div (rx ^ 2 * ry ^ 2 - rx ^ 2 * y1prime ^ 2 - ry ^ 2 * x1prime ^ 2)
                     (rx ^ 2 * y1prime ^ 2 + ry ^ 2 * x1prime ^ 2))
             (\<lambda>radicant.
                if radicant < 0 then
                  and_then (py_div rx ry) (\<lambda>ratio.
                  and_then (py_div (x1prime ^ 2) (ratio ^ 2)) (\<lambda>q.
                    let radicant' = y1prime ^ 2 + q in
                    if radicant' < 0 then
                      Inr (Inl (min x x1, min y y1, max x x1, max y y1))
                    else
                      let ry' = sqrt radicant'; rx' = ratio * ry'
                      in Inr (Inr (rx', ry', 0, 0))))
                else
                  let factor = (if large = sweep then - 1 else 1) * sqrt radicant in
                  and_then (py_div (factor * rx * y1prime) ry) (\<lambda>cxprime.
                  and_then (py_div (- factor * ry * x1prime) rx) (\<lambda>cyprime.
                    Inr (Inr (rx, ry, cxprime, cyprime))))))"

text \<open>Lines 277 to 318: the four extrema of the full ellipse, each with the angle at
  which it is reached: \<open>(minx, tminx, maxx, tmaxx, miny, tminy, maxy, tmaxy)\<close>.\<close>

definition arc_extrema ::
  "real \<Rightarrow> real \<Rightarrow> real \<Rightarrow> real \<Rightarrow> real
     \<Rightarrow> error + real \<times> real \<times> real \<times> real \<times> real \<times> real \<times> real \<times> real" where
  "arc_extrema rx ry cx cy phi =
     (if phi = 0 \<or> phi = pi then
        and_then (angle (- rx) 0) (\<lambda>tminx.
        and_then (angle rx 0) (\<lambda>tmaxx.
        and_then (angle 0 (- ry)) (\<lambda>tminy.
        and_then (angle 0 ry) (\<lambda>tmaxy.
          Inr (cx - rx, tminx, cx + rx, tmaxx, cy - ry, tminy, cy + ry, tmaxy)))))
      else if phi = pi / 2 \<or> phi = 3 * pi / 2 then
        and_then (angle (- ry) 0) (\<lambda>tminx.
        and_then (angle ry 0) (\<lambda>tmaxx.
        and_then (angle 0 (- rx)) (\<lambda>tminy.
        and_then (angle 0 rx) (\<lambda>tmaxy.
          Inr (cx - ry, tminx, cx + ry, tmaxx, cy - rx, tminy, cy + rx, tmaxy)))))
      else
        and_then (py_div (ry * tan phi) rx) (\<lambda>qx.
          let tminx = - arctan qx;
              tmaxx = pi - arctan qx;
              minx = cx + rx * cos tminx * cos phi - ry * sin tminx * sin phi;
              maxx = cx + rx * cos tmaxx * cos phi - ry * sin tmaxx * sin phi;
              (minx, maxx, tminx, tmaxx) =
                (if minx > maxx then (maxx, minx, tmaxx, tminx)
                 else (minx, maxx, tminx, tmaxx));
              tmp_y = cy + rx * cos tminx * sin phi + ry * sin tminx * cos phi
          in and_then (angle (minx - cx) (tmp_y - cy)) (\<lambda>tminx'.
             let tmp_y = cy + rx * cos tmaxx * sin phi + ry * sin tmaxx * cos phi
             in and_then (angle (maxx - cx) (tmp_y - cy)) (\<lambda>tmaxx'.
                and_then (py_div ry (tan phi * rx)) (\<lambda>qy.
                  let tminy = arctan qy;
                      tmaxy = arctan qy + pi;
                      miny = cy + rx * cos tminy * sin phi + ry * sin tminy * cos phi;
                      maxy = cy + rx * cos tmaxy * sin phi + ry * sin tmaxy * cos phi;
                      (miny, maxy, tminy, tmaxy) =
                        (if miny > maxy then (maxy, miny, tmaxy, tminy)
                         else (miny, maxy, tminy, tmaxy));
                      tmp_x = cx + rx * cos tminy * cos phi - ry * sin tminy * sin phi
                  in and_then (angle (tmp_x - cx) (miny - cy)) (\<lambda>tminy'.
                     let tmp_x = cx + rx * cos tmaxy * cos phi - ry * sin tmaxy * sin phi
                     in and_then (angle (tmp_x - cx) (maxy - cy)) (\<lambda>tmaxy'.
                          Inr (minx, tminx', maxx, tmaxx', miny, tminy', maxy, tmaxy'))))))))"

text \<open>The test repeated at lines 331 to 342: the swept arc does not pass the angle
  \<open>t\<close>.\<close>

definition not_swept :: "bool \<Rightarrow> real \<Rightarrow> real \<Rightarrow> real \<Rightarrow> bool" where
  "not_swept other_arc angle1 angle2 t =
     ((\<not> other_arc \<and> (angle1 > t \<or> angle2 < t)) \<or>
      (other_arc \<and> \<not> (angle1 > t \<or> angle2 < t)))"

text \<open>Lines 320 to 344.\<close>

definition arc_clip ::
  "real \<Rightarrow> real \<Rightarrow> bool \<Rightarrow> real \<Rightarrow> real \<Rightarrow> real \<Rightarrow> real
     \<Rightarrow> real \<times> real \<times> real \<times> real \<times> real \<times> real \<times> real \<times> real \<Rightarrow> error + rbox" where
  "arc_clip x1 y1 sweep x y cx cy extrema =
     (case extrema of (minx, tminx, maxx, tmaxx, miny, tminy, maxy, tmaxy) \<Rightarrow>
        and_then (angle (x1 - cx) (y1 - cy)) (\<lambda>a1.
        and_then (angle (x - cx) (y - cy)) (\<lambda>a2.
          let (angle1, angle2) = (if \<not> sweep then (a2, a1) else (a1, a2));
              (angle1, angle2, other_arc) =
                (if angle1 > angle2 then (angle2, angle1, True)
                 else (angle1, angle2, False));
              minx = (if not_swept other_arc angle1 angle2 tminx then min x x1 else minx);
              maxx = (if not_swept other_arc angle1 angle2 tmaxx then max x x1 else maxx);
              miny = (if not_swept other_arc angle1 angle2 tminy then min y y1 else miny);
              maxy = (if not_swept other_arc angle1 angle2 tmaxy then max y y1 else maxy)
          in Inr (minx, miny, maxx - minx, maxy - miny))))"

definition bounding_box_elliptical_arc ::
  "real \<Rightarrow> real \<Rightarrow> real \<Rightarrow> real \<Rightarrow> real \<Rightarrow> bool \<Rightarrow> bool \<Rightarrow> real \<Rightarrow> real \<Rightarrow> error + rbox" where
  "bounding_box_elliptical_arc x1 y1 rx ry phi large sweep x y =
     and_then (arc_radii x1 y1 rx ry phi large sweep x y)
       (\<lambda>r. case r of
          Inl box \<Rightarrow> Inr box
        | Inr (rx', ry', cxprime, cyprime) \<Rightarrow>
            let cx = cxprime * cos phi - cyprime * sin phi + (x1 + x) / 2;
                cy = cxprime * sin phi + cyprime * cos phi + (y1 + y) / 2
            in and_then (arc_extrema rx' ry' cx cy phi)
                 (arc_clip x1 y1 sweep x y cx cy))"

subsection \<open>Strings\<close>

text \<open>Characters are bytes; \<open>str.isspace\<close> and \<open>str.isdigit\<close> are modelled on ASCII.\<close>

definition isspace :: "char \<Rightarrow> bool" where
  "isspace c = (let n = (of_char c :: nat) in (9 \<le> n \<and> n \<le> 13) \<or> (28 \<le> n \<and> n \<le> 32))"

definition isdigit :: "char \<Rightarrow> bool" where
  "isdigit c = (let n = (of_char c :: nat) in 48 \<le> n \<and> n \<le> 57)"

definition strip :: "string \<Rightarrow> string" where
  "strip s = rev (dropWhile isspace (rev (dropWhile isspace s)))"

text \<open>\<open>head, tail = s.split(' ', 1)\<close>: the unpacking raises \<open>ValueError\<close> when \<open>s\<close>
  has no space.\<close>

definition split_space :: "string \<Rightarrow> error + string \<times> string" where
  "split_space s =
     (if CHR '' '' \<in> set s
      then Inr (takeWhile (\<lambda>c. c \<noteq> CHR '' '') s, tl (dropWhile (\<lambda>c. c \<noteq> CHR '' '') s))
      else Inl ValueError)"

text \<open>\<open>a += b\<close>: strings concatenate, numbers add, a string and a number raise
  \<open>TypeError\<close>.\<close>

fun py_add :: "pyval \<Rightarrow> pyval \<Rightarrow> error + pyval" where
  "py_add (Num a) (Num b) = Inr (Num (fadd a b))"
| "py_add (Str a) (Str b) = Inr (Str (a @ b))"
| "py_add _ _ = Inl TypeError"

subsection \<open>The path interpreter, command by command\<close>

text \<open>
  \<open>bounding_box_path\<close> reads its operands with \<open>helpers.point\<close>, which is not part of
  this module. The commands below are the branches of its loop body, taken after the
  operands have been read; the flag scanner and the horizontal and vertical commands work
  on the path data itself.
\<close>

text \<open>Lines 122 to 124 (and again 125 to 127): the loop that lengthens the flag until its
  last character is a digit. \<open>path_data[0]\<close> raises \<open>IndexError\<close> on the empty string.
  The result \<open>None\<close> stands for a loop that does not return.\<close>

partial_function (option) scan_flag :: "string \<Rightarrow> string \<Rightarrow> (error + string \<times> string) option"
  where
  "scan_flag flag path_data =
     (if flag = [] then Some (Inl IndexError)
      else if isdigit (last flag) then Some (Inr (flag, path_data))
      else if path_data = [] then Some (Inl IndexError)
      else scan_flag (flag @ [hd path_data]) (strip (tl path_data)))"

text \<open>\<open>large, path_data = path_data[0], path_data[1:].strip()\<close> followed by the loop.\<close>

definition read_flag :: "string \<Rightarrow> (error + string \<times> string) option" where
  "read_flag path_data =
     (if path_data = [] then Some (Inl IndexError)
      else scan_flag [hd path_data] (strip (tl path_data)))"

text \<open>Line 141: \<open>points = (arc_bounding_box[0:2], arc_bounding_box[2:])\<close>.\<close>

definition arc_points :: "rbox \<Rightarrow> (pyval \<times> pyval) list" where
  "arc_points arc_bounding_box =
     (case arc_bounding_box of (a0, a1, a2, a3) \<Rightarrow>
        [(Num (Fin a0), Num (Fin a1)), (Num (Fin a2), Num (Fin a3))])"

text \<open>Lines 133 to 144, the \<open>A\<close>/\<open>a\<close> command once \<open>rx, ry\<close>, the rotation (in radians),
  the two flags and \<open>x, y\<close> are read. The result is the new running box and the new pen
  position.\<close>

definition arc_command ::
  "bbox \<Rightarrow> real \<Rightarrow> real \<Rightarrow> char \<Rightarrow> real \<Rightarrow> real \<Rightarrow> real \<Rightarrow> bool \<Rightarrow> bool \<Rightarrow> real \<Rightarrow> real
     \<Rightarrow> error + bbox \<times> real \<times> real" where
  "arc_command bounding_box previous_x previous_y letter rx ry rotation large sweep x0 y0 =
     (let x = (if letter = CHR ''a'' then x0 + previous_x else x0);
          y = (if letter = CHR ''a'' then y0 + previous_y else y0)
      in and_then
           (bounding_box_elliptical_arc previous_x previous_y rx ry rotation large sweep x y)
           (\<lambda>arc_bounding_box.
              and_then (extend_bounding_box bounding_box (arc_points arc_bounding_box))
                (\<lambda>bounding_box'. Inr (bounding_box', x, y))))"

text \<open>Lines 167 to 178, the \<open>H\<close>/\<open>h\<close> command: \<open>x\<close> is the string before the first
  space. The result is the new running box, the new \<open>previous_x\<close> and the rest of the
  data.\<close>

definition horizontal_command ::
  "bbox \<Rightarrow> real \<Rightarrow> real \<Rightarrow> char \<Rightarrow> string \<Rightarrow> error + bbox \<times> pyval \<times> string" where
  "horizontal_command bounding_box previous_x previous_y letter path_data =
     and_then (split_space (path_data @ '' ''))
       (\<lambda>(x0, path_data').
          and_then (if letter = CHR ''h'' then py_add (Str x0) (Num (Fin previous_x))
                    else Inr (Str x0))
            (\<lambda>x. and_then (extend_bounding_box bounding_box [(x, Num (Fin previous_y))])
                   (\<lambda>bounding_box'. Inr (bounding_box', x, path_data'))))"

text \<open>Lines 212 to 223, the \<open>V\<close>/\<open>v\<close> command.\<close>

definition vertical_command ::
  "bbox \<Rightarrow> real \<Rightarrow> real \<Rightarrow> char \<Rightarrow> string \<Rightarrow> error + bbox \<times> pyval \<times> string" where
  "vertical_command bounding_box previous_x previous_y letter path_data =
     and_then (split_space (path_data @ '' ''))
       (\<lambda>(y0, path_data').
          and_then (if letter = CHR ''v'' then py_add (Str y0) (Num (Fin previous_y))
                    else Inr (Str y0))
            (\<lambda>y. and_then (extend_bounding_box bounding_box [(Num (Fin previous_x), y)])
                   (\<lambda>bounding_box'. Inr (bounding_box', y, path_data'))))"

subsection \<open>Polylines and polygons\<close>

text \<open>
  \<open>bounding_box_polyline\<close> calls \<open>helpers.normalize\<close> and \<open>helpers.point\<close> and the
  built-in \<open>float\<close>; they are parameters here. The loop is \<open>while points:\<close>, on the list
  that starts empty.
\<close>

partial_function (option) polyline_loop ::
  "(string \<Rightarrow> error + 't \<times> 't \<times> string) \<Rightarrow> ('t \<Rightarrow> error + real) \<Rightarrow>
     (pyval \<times> pyval) list \<Rightarrow> string \<Rightarrow> (error + (pyval \<times> pyval) list) option" where
  "polyline_loop point to_float points normalized_points =
     (if points = [] then Some (Inr points)
      else case point normalized_points of
             Inl e \<Rightarrow> Some (Inl e)
           | Inr (x, y, rest) \<Rightarrow>
               (case to_float x of
                  Inl e \<Rightarrow> Some (Inl e)
                | Inr fx \<Rightarrow>
                    (case to_float y of
                       Inl e \<Rightarrow> Some (Inl e)
                     | Inr fy \<Rightarrow>
                         polyline_loop point to_float
                           (points @ [(Num (Fin fx), Num (Fin fy))]) rest)))"

definition bounding_box_polyline ::
  "(string \<Rightarrow> string) \<Rightarrow> (string \<Rightarrow> error + 't \<times> 't \<times> string) \<Rightarrow> ('t \<Rightarrow> error + real) \<Rightarrow>
     (string \<rightharpoonup> string) \<Rightarrow> (error + bbox) option" where
  "bounding_box_polyline normalise point to_float node =
     (let bounding_box = EMPTY_BOUNDING_BOX;
          normalized_points = normalise (case node ''points'' of None \<Rightarrow> [] | Some v \<Rightarrow> v)
      in case polyline_loop point to_float [] normalized_points of
           None \<Rightarrow> None
         | Some (Inl e) \<Rightarrow> Some (Inl e)
         | Some (Inr points) \<Rightarrow> Some (extend_bounding_box bounding_box points))"

subsection \<open>The dispatcher and its cache\<close>

text \<open>
  A node is a dictionary; the dispatcher reads its tag and reads and writes its
  \<open>'bounding_box'\<close> entry. The table \<open>BOUNDING_BOX_METHODS\<close> is a parameter: several of
  its evaluators call modules outside this one. An evaluator returns a box or \<open>None\<close>, or
  raises.
\<close>

record node =
  tag :: string
  bounding_box_entry :: "bbox option"

definition calculate_bounding_box ::
  "(string \<rightharpoonup> ('a node_scheme \<Rightarrow> error + bbox option)) \<Rightarrow> 'a node_scheme
     \<Rightarrow> error + bbox option \<times> 'a node_scheme" where
  "calculate_bounding_box methods node =
     (if bounding_box_entry node = None \<and> tag node \<in> dom methods then
        (case methods (tag node) of
           None \<Rightarrow> Inr (bounding_box_entry node, node)
         | Some evaluator \<Rightarrow>
             (case evaluator node of
                Inl e \<Rightarrow> Inl e
              | Inr bounding_box \<Rightarrow>
                  let node' = (if is_non_empty_bounding_box bounding_box
                               then node\<lparr>bounding_box_entry := bounding_box\<rparr> else node)
                  in Inr (bounding_box_entry node', node')))
      else Inr (bounding_box_entry node, node))"

subsection \<open>The data model of the specification\<close>

text \<open>A bounding box of the data model: the empty sentinel \<open>(inf, inf, 0, 0)\<close>, or four
  finite reals with nonnegative width and height.\<close>

fun data_model_box :: "bbox \<Rightarrow> bool" where
  "data_model_box (Fin x, Fin y, Fin w, Fin h) = (0 \<le> w \<and> 0 \<le> h)"
| "data_model_box b = (b = (PInf, PInf, Fin 0, Fin 0))"

text \<open>Non-empty in the words of the data model: \<open>minX\<close> and \<open>minY\<close> finite, width and
  height positive.\<close>

fun non_empty_box :: "bbox \<Rightarrow> bool" where
  "non_empty_box (Fin x, Fin y, Fin w, Fin h) = (0 < w \<and> 0 < h)"
| "non_empty_box b = False"

text \<open>The two corner points \<open>(minX, minY)\<close> and \<open>(minX + width, minY + height)\<close> of a
  rectangle in the format of the data model.\<close>

definition corner_points :: "rbox \<Rightarrow> (pyval \<times> pyval) list" where
  "corner_points box =
     (case box of (minx, miny, width, height) \<Rightarrow>
        [(Num (Fin minx), Num (Fin miny)), (Num (Fin (minx + width)), Num (Fin (miny + height)))])"

section \<open>Properties\<close>

subsection \<open>Rounding\<close>

lemma round_half_even_int: "round_half_even (of_int n) = n"
  by (simp add: round_half_even_def)




lemma round64_int:
  assumes "x \<in> \<int>" "\<bar>x\<bar> < 2 ^ 53"
  shows "round64 x = Fin x"
proof (cases "x = 0")
  case True
  then show ?thesis by (simp add: round64_def)
next
  case False
  from assms(1) obtain n where n: "x = of_int n" by (auto elim: Ints_cases)
  with False have one: "1 \<le> \<bar>x\<bar>" by (simp flip: of_int_abs)
  define e where "e = \<lfloor>log 2 \<bar>x\<bar>\<rfloor>"
  have "0 \<le> log 2 \<bar>x\<bar>" using one by simp
  then have e0: "0 \<le> e" by (simp add: e_def)
  have "log 2 \<bar>x\<bar> < 53"
    using assms(2) one by (simp add: log_less_iff powr_realpow [symmetric])
  then have e52: "e \<le> 52" unfolding e_def by linarith
  define k where "k = nat (52 - e)"
  have ulp: "(2::real) powi (e - 52) = 1 / 2 ^ k"
  proof (cases "e = 52")
    case True
    then show ?thesis by (simp add: k_def)
  next
    case False
    with e52 have "e - 52 < 0" by simp
    then show ?thesis
      by (simp add: power_int_def k_def field_simps)
  qed
  have q: "x / 2 powi (e - 52) = of_int (n * 2 ^ k)"
    by (simp add: ulp n)
  have r: "of_int (round_half_even (x / 2 powi (e - 52))) * 2 powi (e - 52) = x"
    unfolding q round_half_even_int by (simp add: ulp n)
  have big: "\<bar>x\<bar> < 2 ^ 1024"
  proof -
    have "(2::real) ^ 53 \<le> 2 ^ 1024" by (rule power_increasing) simp_all
    with assms(2) show ?thesis by linarith
  qed
  have m: "max e (- 1022) = e" using e0 by simp
  from False big show ?thesis
    unfolding round64_def Let_def e_def [symmetric] m r by (simp add: abs_less_iff)
qed

subsection \<open>Angles on the axes\<close>

lemma fmod_small: "0 \<le> a \<Longrightarrow> a < b \<Longrightarrow> fmod a b = a"
proof -
  assume a: "0 \<le> a" "a < b"
  then have "0 \<le> a / b" "a / b < 1" by simp_all
  then have "\<lfloor>a / b\<rfloor> = 0" by linarith
  with \<open>0 \<le> a / b\<close> show ?thesis by (simp add: fmod_def)
qed

lemma fmod_self: "0 < b \<Longrightarrow> fmod b b = 0"
  by (simp add: fmod_def)

lemma angle_neg_x: "0 < r \<Longrightarrow> angle (- r) 0 = Inr pi"
  by (simp add: angle_def py_div_def and_then_def fmod_small)

lemma angle_pos_x: "0 < r \<Longrightarrow> angle r 0 = Inr 0"
  by (simp add: angle_def py_div_def and_then_def fmod_self)

lemma angle_neg_y: "0 < r \<Longrightarrow> angle 0 (- r) = Inr (3 * pi / 2)"
proof -
  assume r: "0 < r"
  have "fmod (2 * pi - pi / 2) (2 * pi) = 2 * pi - pi / 2"
    by (rule fmod_small) (use pi_gt_zero in auto)
  with r show ?thesis
    by (simp add: angle_def py_div_def and_then_def)
qed

lemma angle_pos_y: "0 < r \<Longrightarrow> angle 0 r = Inr (pi / 2)"
proof -
  assume r: "0 < r"
  have "fmod (2 * pi + pi / 2) (2 * pi) = pi / 2"
  proof -
    have q: "(2 * pi + pi / 2) / (2 * pi) = 5 / 4"
      using pi_gt_zero by (simp add: field_simps)
    have "\<lfloor>(5::real) / 4\<rfloor> = 1" by linarith
    then show ?thesis
      unfolding fmod_def q by simp
  qed
  with r show ?thesis
    by (simp add: angle_def py_div_def and_then_def)
qed

subsection \<open>The arc solver on a half circle and on zero radii\<close>

lemma arc_radii_semicircle:
  "arc_radii a b 5 5 0 True True (a + 10) b = Inr (Inr (5, 5, 0, 0))"
  by (simp add: arc_radii_def py_div_def and_then_def Let_def)

lemma arc_extrema_axis:
  "0 < rx \<Longrightarrow> 0 < ry \<Longrightarrow> arc_extrema rx ry cx cy 0 =
     Inr (cx - rx, pi, cx + rx, 0, cy - ry, 3 * pi / 2, cy + ry, pi / 2)"
  by (simp add: arc_extrema_def and_then_def angle_neg_x angle_pos_x angle_neg_y angle_pos_y)

lemma arc_semicircle:
  "bounding_box_elliptical_arc a b 5 5 0 True True (a + 10) b = Inr (a, b - 5, 10, 5)"
proof -
  have c: "arc_clip a b True (a + 10) b (a + 5) b
             (a + 5 - 5, pi, a + 5 + 5, 0, b - 5, 3 * pi / 2, b + 5, pi / 2)
           = Inr (a, b - 5, 10, 5)"
    using angle_neg_x [of 5] angle_pos_x [of 5] pi_gt_zero
    by (simp add: arc_clip_def and_then_def not_swept_def Let_def)
  have m: "(2 * a + 10) / 2 = a + 5" by (simp add: field_simps)
  show ?thesis
    using c
    by (simp add: bounding_box_elliptical_arc_def arc_radii_semicircle and_then_def
        arc_extrema_axis Let_def m)
qed

lemma arc_degenerate:
  "rx = 0 \<or> ry = 0 \<Longrightarrow>
   bounding_box_elliptical_arc x1 y1 rx ry phi large sweep x y =
     Inr (min x x1, min y y1, max x x1, max y y1)"
  by (auto simp add: bounding_box_elliptical_arc_def arc_radii_def and_then_def Let_def)

text \<open>C1. Every valid box returned by an evaluator has nonnegative width and height, the
  arc solver with a zero radius included. The solver does not keep to it: with a zero
  radius it returns \<open>(min x, min y, max x, max y)\<close>, and for the segment from
  \<open>(-3, 0)\<close> to \<open>(-5, 0)\<close> the third component is \<open>-3\<close>.\<close>

theorem arc_zero_radius_negative_width:
  "bounding_box_elliptical_arc (- 3) 0 0 0 0 False False (- 5) 0 = Inr (- 5, 0, - 3, 0)"
  by (simp add: arc_degenerate)

text \<open>C2. With a zero radius the solver returns the rectangle spanned by the endpoints as
  \<open>(min(x, x1), min(y, y1), |x - x1|, |y - y1|)\<close>. On the segment from \<open>(1, 2)\<close> to
  \<open>(4, 6)\<close> that is \<open>(1, 2, 3, 4)\<close>; the solver returns \<open>(1, 2, 4, 6)\<close>, the maxima in
  place of the width and the height.\<close>

theorem arc_zero_radius_returns_maxima:
  "bounding_box_elliptical_arc 1 2 0 0 0 False False 4 6 = Inr (1, 2, 4, 6) \<and>
   (1, 2, 4, 6) \<noteq> (min 4 1, min 6 2, \<bar>4 - 1\<bar>, \<bar>6 - 2 :: real\<bar>)"
  by (simp add: arc_degenerate)

subsection \<open>The arc command\<close>

lemma arc_command_semicircle_origin:
  "arc_command (Fin 0, Fin 0, Fin 0, Fin 0) 0 0 CHR ''A'' 5 5 0 True True 10 0 =
     Inr ((Fin 0, Fin (- 5), Fin 10, Fin 10), 10, 0)"
  using arc_semicircle [of 0 0]
  by (simp add: arc_command_def and_then_def arc_points_def extend_bounding_box_def
      py_min_def py_max_def fsub_def Let_def round64_int)

text \<open>C3. The \<open>A\<close> command extends the running box with the corners \<open>(minX, minY)\<close> and
  \<open>(minX + width, minY + height)\<close> of the solver's rectangle. After \<open>M 100 100\<close>, the
  command \<open>A 5 5 0 1 1 110 100\<close> gets the rectangle \<open>(100, 95, 10, 5)\<close> from the solver;
  extending with its corners gives \<open>(100, 95, 10, 5)\<close>, but the interpreter extends with
  \<open>(100, 95)\<close> and \<open>(10, 5)\<close>, the width and height taken as a point, and ends with
  \<open>(10, 5, 90, 95)\<close>.\<close>

theorem arc_command_extends_with_size:
  "bounding_box_elliptical_arc 100 100 5 5 0 True True 110 100 = Inr (100, 95, 10, 5) \<and>
   arc_command (Fin 100, Fin 100, Fin 0, Fin 0) 100 100 CHR ''A'' 5 5 0 True True 110 100 =
     Inr ((Fin 10, Fin 5, Fin 90, Fin 95), 110, 100) \<and>
   extend_bounding_box (Fin 100, Fin 100, Fin 0, Fin 0) (corner_points (100, 95, 10, 5)) =
     Inr (Fin 100, Fin 95, Fin 10, Fin 5)"
  using arc_semicircle [of 100 100]
  by (simp add: arc_command_def and_then_def arc_points_def corner_points_def
      extend_bounding_box_def py_min_def py_max_def fsub_def Let_def round64_int)

text \<open>C4. The arc from \<open>(0, 0)\<close> to \<open>(10, 0)\<close> with both radii 5, no rotation and both
  flags set: the solver's box is \<open>(0, -5, 10, 5)\<close>, so the x-extent is \<open>[0, 10]\<close> and the
  height is 5, the radius of the half circle.\<close>

theorem arc_semicircle_box:
  "bounding_box_elliptical_arc 0 0 5 5 0 True True 10 0 = Inr (0, - 5, 10, 5)"
  using arc_semicircle [of 0 0] by simp

text \<open>The height of that box is not 10.\<close>

theorem arc_semicircle_height_not_10:
  "(case bounding_box_elliptical_arc 0 0 5 5 0 True True 10 0 of
      Inl e \<Rightarrow> True
    | Inr (minx, miny, width, height) \<Rightarrow> height \<noteq> 10)"
  using arc_semicircle [of 0 0] by simp

subsection \<open>Polylines\<close>

text \<open>C5. For a \<open>polyline\<close> or \<open>polygon\<close> with a non-empty \<open>points\<close> attribute the
  evaluator returns the min/max rectangle of the points without raising. It raises for
  every node: the loop \<open>while points:\<close> tests the list that starts empty, so no point is
  read, and \<open>extend_bounding_box\<close> cannot unpack \<open>zip(*[])\<close>.\<close>

theorem bounding_box_polyline_raises:
  "bounding_box_polyline normalise point to_float node = Some (Inl ValueError)"
  by (simp add: bounding_box_polyline_def polyline_loop.simps extend_bounding_box_def
      EMPTY_BOUNDING_BOX_def Let_def)

subsection \<open>Horizontal and vertical commands\<close>

lemma split_space_append:
  "split_space (s @ '' '') = Inr (takeWhile (\<lambda>c. c \<noteq> CHR '' '') (s @ '' ''),
      tl (dropWhile (\<lambda>c. c \<noteq> CHR '' '') (s @ '' '')))"
  by (simp add: split_space_def)

lemma extend_str_x: "extend_bounding_box b [(Str s, v)] = Inl TypeError"
  by (cases b) (simp add: extend_bounding_box_def Let_def)

lemma extend_str_y: "extend_bounding_box b [(Num f, Str s)] = Inl TypeError"
  by (cases b) (simp add: extend_bounding_box_def Let_def)

text \<open>C6. The \<open>H\<close>/\<open>h\<close> and \<open>V\<close>/\<open>v\<close> commands extend the running box with one point
  and move the pen along one axis, without a type error. The operand stays the string
  cut out of the path data: the lowercase commands add the pen coordinate to it, the
  uppercase ones let \<open>extend_bounding_box\<close> compare it with a float, and every one of
  them raises \<open>TypeError\<close>.\<close>

theorem horizontal_vertical_raise:
  "horizontal_command bounding_box previous_x previous_y letter path_data = Inl TypeError \<and>
   vertical_command bounding_box previous_x previous_y letter path_data = Inl TypeError"
  by (simp add: horizontal_command_def vertical_command_def split_space_append and_then_def
      extend_str_x extend_str_y)

subsection \<open>The flag scanner\<close>

lemma length_strip: "length (strip s) \<le> length s"
proof -
  have "length (strip s) \<le> length (dropWhile isspace s)"
    unfolding strip_def by (simp add: length_dropWhile_le order_trans [OF length_dropWhile_le])
  also have "\<dots> \<le> length s" by (rule length_dropWhile_le)
  finally show ?thesis .
qed

lemma set_strip: "set (strip s) \<subseteq> set s"
proof -
  have "set (strip s) \<subseteq> set (dropWhile isspace s)"
    unfolding strip_def using set_dropWhileD by fastforce
  also have "\<dots> \<subseteq> set s" using set_dropWhileD by fastforce
  finally show ?thesis .
qed

lemma scan_flag_returns: "\<exists>r. scan_flag flag path_data = Some r"
proof (induction "length path_data" arbitrary: flag path_data rule: less_induct)
  case less
  show ?case
  proof (cases "flag = [] \<or> isdigit (last flag) \<or> path_data = []")
    case True
    then show ?thesis by (subst scan_flag.simps) auto
  next
    case False
    then have "length (strip (tl path_data)) < length path_data"
      using length_strip [of "tl path_data"] by (cases path_data) auto
    from less [OF this, of "flag @ [hd path_data]"] False
    show ?thesis by (subst scan_flag.simps) simp
  qed
qed

lemma scan_flag_no_digit:
  "flag \<noteq> [] \<Longrightarrow> \<not> isdigit (last flag) \<Longrightarrow> \<forall>c\<in>set path_data. \<not> isdigit c \<Longrightarrow>
   scan_flag flag path_data = Some (Inl IndexError)"
proof (induction "length path_data" arbitrary: flag path_data rule: less_induct)
  case less
  show ?case
  proof (cases "path_data = []")
    case True
    with less.prems show ?thesis by (subst scan_flag.simps) simp
  next
    case False
    then have l: "length (strip (tl path_data)) < length path_data"
      using length_strip [of "tl path_data"] by (cases path_data) auto
    have s: "\<forall>c\<in>set (strip (tl path_data)). \<not> isdigit c"
      using less.prems(3) set_strip [of "tl path_data"] False
      by (cases path_data) auto
    have h: "\<not> isdigit (last (flag @ [hd path_data]))"
      using less.prems(3) False by (cases path_data) auto
    have "scan_flag (flag @ [hd path_data]) (strip (tl path_data)) = Some (Inl IndexError)"
      by (rule less.hyps [OF l _ h s]) simp
    with less.prems False show ?thesis by (subst scan_flag.simps) simp
  qed
qed

lemma read_flag_returns: "\<exists>r. read_flag path_data = Some r"
  using scan_flag_returns by (simp add: read_flag_def)

lemma read_flag_no_digit:
  "\<forall>c\<in>set path_data. \<not> isdigit c \<Longrightarrow> read_flag path_data = Some (Inl IndexError)"
proof (cases path_data)
  case Nil
  then show ?thesis by (simp add: read_flag_def)
next
  case (Cons c cs)
  assume a: "\<forall>c\<in>set path_data. \<not> isdigit c"
  with Cons have "\<forall>c\<in>set (strip cs). \<not> isdigit c"
    using set_strip [of cs] by auto
  with a Cons show ?thesis
    by (simp add: read_flag_def scan_flag_no_digit)
qed

text \<open>C7 as it stands asks for an input on which the flag scanner loops for ever. There
  is none: no flag and no path data make the loop diverge.\<close>

theorem scan_flag_never_diverges:
  "\<not> (\<exists>flag path_data. scan_flag flag path_data = None) \<and>
   \<not> (\<exists>path_data. read_flag path_data = None)"
proof -
  have "scan_flag flag path_data \<noteq> None" for flag path_data
    using scan_flag_returns [of flag path_data] by auto
  moreover have "read_flag path_data \<noteq> None" for path_data
    using read_flag_returns [of path_data] by auto
  ultimately show ?thesis by blast
qed

text \<open>C7, amended. Reading a flag returns on every path data: each turn of the loop
  takes a character off the data, and \<open>path_data[0]\<close> raises \<open>IndexError\<close> once the data
  is used up. On data without a digit the outcome is that \<open>IndexError\<close>.\<close>

theorem read_flag_terminates:
  "(\<exists>r. read_flag path_data = Some r) \<and>
   ((\<forall>c\<in>set path_data. \<not> isdigit c) \<longrightarrow> read_flag path_data = Some (Inl IndexError))"
  using read_flag_returns [of path_data] read_flag_no_digit [of path_data] by blast

theorem read_flag_terminates_witness:
  "\<not> isdigit CHR '','' \<and> \<not> isdigit CHR ''x'' \<and> read_flag '',x,'' = Some (Inl IndexError)"
proof -
  have h: "\<forall>c\<in>set '',x,''. \<not> isdigit c" by (simp add: isdigit_def)
  with read_flag_terminates [of "'',x,''"] show ?thesis by simp
qed

subsection \<open>The dispatcher\<close>

lemma non_empty_test:
  "is_non_empty_bounding_box (Some (minx, miny, width, height)) =
     (\<not> isinf (fadd minx miny) \<and> width \<noteq> Fin 0 \<and> height \<noteq> Fin 0)"
  by (simp add: is_non_empty_bounding_box_def is_valid_bounding_box_def)

lemma non_empty_data_model:
  "data_model_box b \<Longrightarrow>
   is_non_empty_bounding_box (Some b) = (is_valid_bounding_box (Some b) \<and> non_empty_box b)"
  by (cases b rule: data_model_box.cases)
     (auto simp add: is_non_empty_bounding_box_def is_valid_bounding_box_def)

lemma calculate_cached:
  "bounding_box_entry node = Some c \<Longrightarrow>
   calculate_bounding_box methods node = Inr (Some c, node)"
  by (simp add: calculate_bounding_box_def)

lemma calculate_fresh:
  "bounding_box_entry node = None \<Longrightarrow> methods (tag node) = Some evaluator \<Longrightarrow>
   evaluator node = Inr box \<Longrightarrow>
   calculate_bounding_box methods node =
     (if is_non_empty_bounding_box box then Inr (box, node\<lparr>bounding_box_entry := box\<rparr>)
      else Inr (None, node))"
  by (auto simp add: calculate_bounding_box_def Let_def)

lemma calculate_written: "bounding_box_entry n = None \<and> is_non_empty_bounding_box result \<and>
      n' = n\<lparr>bounding_box_entry := result\<rparr> \<and>
      (case methods (tag n) of None \<Rightarrow> False | Some evaluator \<Rightarrow> evaluator n = Inr result)"
    if a: "calculate_bounding_box methods n = Inr (result, n')" and b: "n' \<noteq> n"
proof (cases "bounding_box_entry n = None \<and> tag n \<in> dom methods")
  case False
  with a b show ?thesis by (simp add: calculate_bounding_box_def)
next
  case True
  then obtain evaluator where e: "methods (tag n) = Some evaluator" by auto
  show ?thesis
  proof (cases "evaluator n")
    case (Inl err)
    with a True e show ?thesis by (simp add: calculate_bounding_box_def)
  next
    case (Inr box)
    show ?thesis
    proof (cases "is_non_empty_bounding_box box")
      case False
      with a b True e Inr show ?thesis by (simp add: calculate_bounding_box_def Let_def)
    next
      case t: True
      with a True e Inr have "result = box" "n' = n\<lparr>bounding_box_entry := box\<rparr>"
        by (auto simp add: calculate_bounding_box_def Let_def)
      with t True e Inr show ?thesis by simp
    qed
  qed
qed

text \<open>C8 as it stands has the entry written only for a box that is valid with width and
  height greater than 0. The test of the code is \<open>0 not in bounding_box[2:]\<close>: an
  evaluator that returns the width \<open>nan\<close> (a \<open>rect\<close> with \<open>width="nan"\<close> does, since
  \<open>max(nan, 0)\<close> is \<open>nan\<close>) gets its box written, though the width is not greater than
  0.\<close>

theorem calculate_bounding_box_caches_nan_width:
  "calculate_bounding_box [''rect'' \<mapsto> (\<lambda>n. Inr (Some (Fin 10, Fin 20, NaN, Fin 40)))]
     \<lparr>tag = ''rect'', bounding_box_entry = None\<rparr> =
     Inr (Some (Fin 10, Fin 20, NaN, Fin 40),
          \<lparr>tag = ''rect'', bounding_box_entry = Some (Fin 10, Fin 20, NaN, Fin 40)\<rparr>) \<and>
   \<not> non_empty_box (Fin 10, Fin 20, NaN, Fin 40)"
  by (simp add: calculate_bounding_box_def is_non_empty_bounding_box_def
      is_valid_bounding_box_def round64_int Let_def)

text \<open>C8, amended. The dispatcher never overwrites an entry that is there: it returns it
  and leaves the node as it is. With no entry and an evaluator for the tag, it writes the
  entry exactly when the box just computed passes \<open>is_non_empty_bounding_box\<close>: the box is
  not \<open>None\<close>, \<open>minx + miny\<close> is not infinite, and neither the width nor the height equals
  0. Otherwise the node is left without an entry, so the next query runs the evaluator
  again. Whenever a call changes the node, the node had no entry and the change is the
  entry set to such a box. For a box of the data model the test is: \<open>minx + miny\<close> not
  infinite, and width and height greater than 0.\<close>

theorem calculate_bounding_box_cache:
  "(bounding_box_entry cached = Some c \<longrightarrow>
      calculate_bounding_box methods cached = Inr (Some c, cached)) \<and>
   (bounding_box_entry node = None \<and> methods (tag node) = Some evaluator \<and>
    evaluator node = Inr box \<longrightarrow>
      calculate_bounding_box methods node =
        (if (case box of
               None \<Rightarrow> False
             | Some (minx, miny, width, height) \<Rightarrow>
                 \<not> isinf (fadd minx miny) \<and> width \<noteq> Fin 0 \<and> height \<noteq> Fin 0)
         then Inr (box, node\<lparr>bounding_box_entry := box\<rparr>)
         else Inr (None, node))) \<and>
   (calculate_bounding_box methods n = Inr (result, n') \<and> n' \<noteq> n \<longrightarrow>
      bounding_box_entry n = None \<and> is_non_empty_bounding_box result \<and>
      n' = n\<lparr>bounding_box_entry := result\<rparr> \<and>
      (case methods (tag n) of None \<Rightarrow> False | Some evaluator \<Rightarrow> evaluator n = Inr result)) \<and>
   (data_model_box b \<longrightarrow>
      is_non_empty_bounding_box (Some b) =
        (is_valid_bounding_box (Some b) \<and> non_empty_box b))"
proof -
  have kept: "calculate_bounding_box methods cached = Inr (Some c, cached)"
    if "bounding_box_entry cached = Some c"
    using that by (rule calculate_cached)
  have fresh: "calculate_bounding_box methods node =
        (if (case box of
               None \<Rightarrow> False
             | Some (minx, miny, width, height) \<Rightarrow>
                 \<not> isinf (fadd minx miny) \<and> width \<noteq> Fin 0 \<and> height \<noteq> Fin 0)
         then Inr (box, node\<lparr>bounding_box_entry := box\<rparr>)
         else Inr (None, node))"
    if a: "bounding_box_entry node = None \<and> methods (tag node) = Some evaluator \<and>
      evaluator node = Inr box"
  proof -
    have "is_non_empty_bounding_box box =
        (case box of
           None \<Rightarrow> False
         | Some (minx, miny, width, height) \<Rightarrow>
             \<not> isinf (fadd minx miny) \<and> width \<noteq> Fin 0 \<and> height \<noteq> Fin 0)"
    proof (cases box)
      case None
      then show ?thesis
        by (simp add: is_non_empty_bounding_box_def is_valid_bounding_box_def)
    next
      case (Some t)
      then show ?thesis by (cases t) (simp add: non_empty_test)
    qed
    with a calculate_fresh [of node methods evaluator box] show ?thesis by simp
  qed
  have written: "bounding_box_entry n = None \<and> is_non_empty_bounding_box result \<and>
      n' = n\<lparr>bounding_box_entry := result\<rparr> \<and>
      (case methods (tag n) of None \<Rightarrow> False | Some evaluator \<Rightarrow> evaluator n = Inr result)"
    if "calculate_bounding_box methods n = Inr (result, n') \<and> n' \<noteq> n"
    using that calculate_written [of methods n result n'] by blast
  have model: "is_non_empty_bounding_box (Some b) =
        (is_valid_bounding_box (Some b) \<and> non_empty_box b)"
    if "data_model_box b"
    using that by (rule non_empty_data_model)
  show ?thesis
    apply (rule conjI)
     apply (rule impI, erule kept)
    apply (rule conjI)
     apply (rule impI, erule fresh)
    apply (rule conjI)
     apply (rule impI, erule written)
    apply (rule impI, erule model)
    done
qed

theorem calculate_bounding_box_cache_witness:
  "calculate_bounding_box [''rect'' \<mapsto> (\<lambda>n. Inr (Some (Fin 10, Fin 20, Fin 30, Fin 40)))]
     \<lparr>tag = ''rect'', bounding_box_entry = Some (Fin 1, Fin 2, Fin 3, Fin 4)\<rparr> =
     Inr (Some (Fin 1, Fin 2, Fin 3, Fin 4),
          \<lparr>tag = ''rect'', bounding_box_entry = Some (Fin 1, Fin 2, Fin 3, Fin 4)\<rparr>) \<and>
   calculate_bounding_box [''rect'' \<mapsto> (\<lambda>n. Inr (Some (Fin 10, Fin 20, Fin 30, Fin 40)))]
     \<lparr>tag = ''rect'', bounding_box_entry = None\<rparr> =
     Inr (Some (Fin 10, Fin 20, Fin 30, Fin 40),
          \<lparr>tag = ''rect'', bounding_box_entry = Some (Fin 10, Fin 20, Fin 30, Fin 40)\<rparr>) \<and>
   calculate_bounding_box [''rect'' \<mapsto> (\<lambda>n. Inr (Some (Fin 10, Fin 20, Fin 0, Fin 40)))]
     \<lparr>tag = ''rect'', bounding_box_entry = None\<rparr> =
     Inr (None, \<lparr>tag = ''rect'', bounding_box_entry = None\<rparr>) \<and>
   data_model_box (Fin 10, Fin 20, Fin 0, Fin 40) \<and>
   \<not> is_non_empty_bounding_box (Some (Fin 10, Fin 20, Fin 0, Fin 40))"
  using calculate_bounding_box_cache
    [where cached = "\<lparr>tag = ''rect'', bounding_box_entry = Some (Fin 1, Fin 2, Fin 3, Fin 4)\<rparr>"
       and c = "(Fin 1, Fin 2, Fin 3, Fin 4)"
       and methods = "[''rect'' \<mapsto> (\<lambda>n. Inr (Some (Fin 10, Fin 20, Fin 30, Fin 40)))]"
       and node = "\<lparr>tag = ''rect'', bounding_box_entry = None\<rparr>"
       and evaluator = "\<lambda>n. Inr (Some (Fin 10, Fin 20, Fin 30, Fin 40))"
       and box = "Some (Fin 10, Fin 20, Fin 30, Fin 40)"
       and n = "\<lparr>tag = ''rect'', bounding_box_entry = None\<rparr>"
       and result = "Some (Fin 10, Fin 20, Fin 30, Fin 40)"
       and n' = "\<lparr>tag = ''rect'', bounding_box_entry = Some (Fin 10, Fin 20, Fin 30, Fin 40)\<rparr>"
       and b = "(Fin 10, Fin 20, Fin 0, Fin 40)"]
    calculate_bounding_box_cache
    [where cached = "\<lparr>tag = ''rect'', bounding_box_entry = Some (Fin 1, Fin 2, Fin 3, Fin 4)\<rparr>"
       and c = "(Fin 1, Fin 2, Fin 3, Fin 4)"
       and methods = "[''rect'' \<mapsto> (\<lambda>n. Inr (Some (Fin 10, Fin 20, Fin 0, Fin 40)))]"
       and node = "\<lparr>tag = ''rect'', bounding_box_entry = None\<rparr>"
       and evaluator = "\<lambda>n. Inr (Some (Fin 10, Fin 20, Fin 0, Fin 40))"
       and box = "Some (Fin 10, Fin 20, Fin 0, Fin 40)"
       and n = "\<lparr>tag = ''rect'', bounding_box_entry = None\<rparr>"
       and result = "None"
       and n' = "\<lparr>tag = ''rect'', bounding_box_entry = None\<rparr>"
       and b = "(Fin 10, Fin 20, Fin 0, Fin 40)"]
  by (simp add: round64_int)

subsection \<open>Combining boxes\<close>











subsection \<open>The radius correction\<close>

text \<open>C10. With both radii nonzero, the radicant recomputed in the radius correction,
  \<open>y1prime ** 2 + x1prime ** 2 / ratio ** 2\<close>, is never negative; so when the first
  radicant is negative the solver goes on with the corrected radii \<open>ratio * sqrt radicant\<close>
  and \<open>sqrt radicant\<close>, and never takes the second early return.\<close>

theorem radius_correction_radicant_nonneg:
  "rx \<noteq> 0 \<Longrightarrow> ry \<noteq> 0 \<Longrightarrow>
   (let x1prime = cos phi * (x1 - x) / 2 + sin phi * (y1 - y) / 2;
        y1prime = - sin phi * (x1 - x) / 2 + cos phi * (y1 - y) / 2;
        ratio = \<bar>rx\<bar> / \<bar>ry\<bar>;
        radicant' = y1prime ^ 2 + x1prime ^ 2 / ratio ^ 2
    in 0 \<le> radicant' \<and>
       (\<bar>rx\<bar> ^ 2 * y1prime ^ 2 + \<bar>ry\<bar> ^ 2 * x1prime ^ 2 \<noteq> 0 \<and>
        (\<bar>rx\<bar> ^ 2 * \<bar>ry\<bar> ^ 2 - \<bar>rx\<bar> ^ 2 * y1prime ^ 2 - \<bar>ry\<bar> ^ 2 * x1prime ^ 2) /
          (\<bar>rx\<bar> ^ 2 * y1prime ^ 2 + \<bar>ry\<bar> ^ 2 * x1prime ^ 2) < 0 \<longrightarrow>
        arc_radii x1 y1 rx ry phi large sweep x y =
          Inr (Inr (ratio * sqrt radicant', sqrt radicant', 0, 0))))"
proof -
  assume r: "rx \<noteq> 0" "ry \<noteq> 0"
  define x1prime where "x1prime = cos phi * (x1 - x) / 2 + sin phi * (y1 - y) / 2"
  define y1prime where "y1prime = - sin phi * (x1 - x) / 2 + cos phi * (y1 - y) / 2"
  define q where "q = x1prime ^ 2 / (\<bar>rx\<bar> / \<bar>ry\<bar>) ^ 2"
  have q: "0 \<le> q" unfolding q_def by simp
  have nn: "0 \<le> y1prime ^ 2 + q" using q by simp
  then have nl: "\<not> y1prime ^ 2 + q < 0" by simp
  show ?thesis
    using r nn nl
    unfolding Let_def arc_radii_def py_div_def and_then_def
      x1prime_def [symmetric] y1prime_def [symmetric]
    by (simp add: q_def [symmetric] power2_eq_square [symmetric])
qed

theorem radius_correction_radicant_nonneg_witness:
  "(1::real) \<noteq> 0 \<and> arc_radii 0 0 1 1 0 False True 10 0 = Inr (Inr (5, 5, 0, 0))"
proof -
  have s: "sqrt 25 = 5"
    using real_sqrt_abs [of 5] by simp
  show ?thesis
    using radius_correction_radicant_nonneg [of 1 1 0 0 10 0 0 False True]
    by (simp add: Let_def s)
qed

end
